theory Spec2Isabelle
  imports Main
begin

section \<open>The WeMo CrockPot entity of homeassistant/components/wemo/switch.py\<close>

text \<open>
  The development embeds the class \<open>CrockPot\<close> (and the part of its base class
  \<open>WemoSwitch\<close> it calls) of \<^verbatim>\<open>src/homeassistant/components/wemo/switch.py\<close>.
  A Python name that starts with an underscore is written with the prefix \<open>u_\<close>:
  \<open>self._available\<close> is \<open>u_available\<close>, the method \<open>_update\<close> is \<open>u_update\<close>.
\<close>

subsection \<open>Python values and exceptions\<close>

text \<open>
  The exception classes the code can meet. \<open>ActionException\<close> is the class of the
  device library; \<open>OtherException\<close> stands for every class not named in the file.
\<close>

datatype py_exception =
  AttributeError | ActionException | NameError | ValueError | OtherException

text \<open>What a call can do: return a value or raise.\<close>

datatype 'a outcome = Returns 'a | Raises py_exception

text \<open>
  The arguments of \<open>update_settings\<close>: \<open>turn_on\<close> passes strings, the service handler
  passes what the service call carries, with the integer \<open>0\<close> as default.
\<close>

datatype pyval = PyStr string | PyInt int

subsection \<open>The builtin \<open>int\<close>\<close>

text \<open>
  \<open>int(s)\<close> on a string, base 10: surrounding whitespace is dropped (on an ASCII
  string: tab, line feed, vertical tab, form feed, carriage return and space, the codes 9
  to 13 and 32), one sign is allowed, then digits, where single underscores may stand
  between two digits. Anything else raises \<open>ValueError\<close>. Characters are the ASCII ones.
\<close>

definition py_isspace :: "char \<Rightarrow> bool" where
  "py_isspace c = (let n = (of_char c :: nat) in (9 \<le> n \<and> n \<le> 13) \<or> n = 32)"

definition py_strip :: "string \<Rightarrow> string" where
  "py_strip s = rev (dropWhile py_isspace (rev (dropWhile py_isspace s)))"

definition is_digit :: "char \<Rightarrow> bool" where
  "is_digit c = (let n = (of_char c :: nat) in 48 \<le> n \<and> n \<le> 57)"

definition digit_val :: "char \<Rightarrow> nat" where
  "digit_val c = of_char c - 48"

text \<open>
  \<open>digits_value acc prev cs\<close>: the value of the digit string \<open>cs\<close> after the digits
  already read into \<open>acc\<close>; \<open>prev\<close> says that the character before \<open>cs\<close> was a digit.
\<close>

fun digits_value :: "nat \<Rightarrow> bool \<Rightarrow> string \<Rightarrow> nat option" where
  "digits_value acc prev [] = (if prev then Some acc else None)"
| "digits_value acc prev (c # cs) =
     (if is_digit c then digits_value (acc * 10 + digit_val c) True cs
      else if c = CHR ''_'' \<and> prev then digits_value acc False cs
      else None)"

definition int_of_str :: "string \<Rightarrow> py_exception + int" where
  "int_of_str s =
     (case py_strip s of
        [] \<Rightarrow> Inl ValueError
      | c # cs \<Rightarrow>
          if c = CHR ''-'' then
            (case digits_value 0 False cs of None \<Rightarrow> Inl ValueError | Some n \<Rightarrow> Inr (- int n))
          else if c = CHR ''+'' then
            (case digits_value 0 False cs of None \<Rightarrow> Inl ValueError | Some n \<Rightarrow> Inr (int n))
          else
            (case digits_value 0 False (c # cs) of None \<Rightarrow> Inl ValueError | Some n \<Rightarrow> Inr (int n)))"

fun py_int :: "pyval \<Rightarrow> py_exception + int" where
  "py_int (PyInt n) = Inr n"
| "py_int (PyStr s) = int_of_str s"

subsection \<open>The builtin \<open>str\<close> on integers\<close>

text \<open>
  \<open>str(n)\<close> on an integer: its decimal digits, most significant first, after a minus sign
  when it is negative. It says which strings \<open>int\<close> has to read back, and as what.
\<close>

definition digit_char :: "nat \<Rightarrow> char" where
  "digit_char d = char_of (48 + d)"

fun str_of_nat :: "nat \<Rightarrow> string" where
  "str_of_nat n = (if n < 10 then [digit_char n] else str_of_nat (n div 10) @ [digit_char (n mod 10)])"

declare str_of_nat.simps [simp del]

definition py_str :: "int \<Rightarrow> string" where
  "py_str n = (if n < 0 then CHR ''-'' # str_of_nat (nat (- n)) else str_of_nat (nat n))"

subsection \<open>Names and \<open>except\<close> clauses\<close>

text \<open>
  An \<open>except\<close> clause names exception classes. Python evaluates these names when an
  exception reaches the clause, in the module's global namespace and then in the
  builtins; a name bound in neither raises \<open>NameError\<close> there, in place of the handler.

  \<open>switch.py\<close> binds, at module level, the names of its imports (lines 2 to 16:
  \<open>asyncio\<close>, \<open>datetime\<close>, \<open>timedelta\<close>, \<open>logging\<close>, \<open>SwitchEntity\<close>, \<open>STATE_OFF\<close>,
  \<open>STATE_ON\<close>, \<open>STATE_STANDBY\<close>, \<open>STATE_UNKNOWN\<close>, \<open>ATTR_ENTITY_ID\<close>,
  \<open>async_dispatcher_connect\<close>, \<open>convert\<close>, \<open>WEMO_DOMAIN\<close>,
  \<open>SERVICE_UPDATE_CROCKPOT_SETTINGS\<close>, \<open>WemoSubscriptionEntity\<close>), its constants, the
  function \<open>async_setup_entry\<close> and the classes \<open>WemoSwitch\<close> and \<open>CrockPot\<close>. None of them
  is an exception class, and the file has no import of \<open>ActionException\<close>: the exception
  classes a clause of this file can name are the builtin ones.
\<close>

definition exception_names :: "(string \<times> py_exception) list" where
  "exception_names =
     [(''AttributeError'', AttributeError), (''NameError'', NameError), (''ValueError'', ValueError)]"

text \<open>
  \<open>except_clause names e\<close>: evaluating the clause \<open>except (names)\<close> on the raised
  exception \<open>e\<close>. \<open>Inl NameError\<close> when a name is unbound, else whether \<open>e\<close> is of one of
  the classes.
\<close>

fun except_clause :: "string list \<Rightarrow> py_exception \<Rightarrow> py_exception + bool" where
  "except_clause [] e = Inr False"
| "except_clause (n # ns) e =
     (case map_of exception_names n of
        None \<Rightarrow> Inl NameError
      | Some c \<Rightarrow>
          (case except_clause ns e of
             Inl x \<Rightarrow> Inl x
           | Inr b \<Rightarrow> Inr (c = e \<or> b)))"

subsection \<open>The device and the entity\<close>

text \<open>
  \<open>self.wemo\<close> is the device object of the device library, outside this repository.
  The record holds what the device answers during one operation of the entity: the
  outcome of each method the operation may call, and the attributes as they read after
  \<open>get_state\<close>.
\<close>

record wemo =
  wemo_get_state :: "int option outcome"
  wemo_mode :: "string option"
  wemo_mode_string :: "string option"
  wemo_remaining_time :: "int option"
  wemo_cooked_time :: "int option"
  wemo_reconnect_with_device :: "unit outcome"
  wemo_update_settings :: "unit outcome"
  wemo_off :: "bool outcome"

text \<open>
  The fields of the base class \<open>WemoSubscriptionEntity\<close> (entity.py) that the code
  reads and writes, and the fields \<open>WemoSwitch.__init__\<close> and \<open>CrockPot.__init__\<close> add.
  \<open>insight_params\<close>, \<open>maker_params\<close> and \<open>coffeemaker_mode\<close> are set to \<open>None\<close> by
  \<open>WemoSwitch.__init__\<close> and never touched by \<open>CrockPot\<close>; they are left out.
  \<open>None\<close> of an option type is Python's \<open>None\<close>.
\<close>

record wemo_entity =
  u_state :: "int option"
  u_available :: bool

record crockpot = wemo_entity +
  u_mode_string :: "string option"
  crockpot_mode :: "string option"
  crockpot_remaining_time :: "int option"
  crockpot_cooked_time :: "int option"
  u_ignoreUnavailableCounter :: int
  u_ignoreUpdatesCounter :: int

definition WEMO_OFF :: int where
  "WEMO_OFF = 0"

text \<open>
  \<open>CrockPot.__init__\<close> (lines 202 to 215), on the entity as the constructor of the base
  class leaves it.
\<close>

definition CrockPot_init :: "wemo_entity \<Rightarrow> crockpot" where
  "CrockPot_init b =
     \<lparr> u_state = u_state b, u_available = u_available b,
       u_mode_string = None,
       crockpot_mode = None,
       crockpot_remaining_time = None,
       crockpot_cooked_time = None,
       u_ignoreUnavailableCounter = 0,
       u_ignoreUpdatesCounter = 0 \<rparr>"

subsection \<open>The properties \<open>available\<close> and \<open>is_on\<close>\<close>

text \<open>
  \<open>CrockPot.available\<close> (lines 238 to 247). Reading the property can change the
  counter, so the model returns the value read and the entity after the read.
\<close>

definition available :: "crockpot \<Rightarrow> bool \<times> crockpot" where
  "available s =
     (if \<not> u_available s then
        (if u_ignoreUnavailableCounter s < 3 then
           (True, s\<lparr>u_ignoreUnavailableCounter := u_ignoreUnavailableCounter s + 1\<rparr>)
         else (u_available s, s))
      else (u_available s, s))"

text \<open>\<open>CrockPot.is_on\<close> (lines 253 to 256); \<open>int\<close> may raise.\<close>

definition is_on :: "crockpot \<Rightarrow> py_exception + bool" where
  "is_on s =
     (case crockpot_mode s of
        None \<Rightarrow> Inr False
      | Some m \<Rightarrow> (case int_of_str m of Inl e \<Rightarrow> Inl e | Inr n \<Rightarrow> Inr (n > 0)))"

subsection \<open>\<open>CrockPot._update\<close>\<close>

text \<open>
  Lines 291 to 301: the decision \<open>updateState\<close> and the entity with its counter of
  ignored updates set.
\<close>

definition debounce :: "wemo \<Rightarrow> crockpot \<Rightarrow> bool \<times> crockpot" where
  "debounce w s =
     (if (crockpot_mode s = None \<or> crockpot_mode s \<noteq> Some ''0'') \<and> wemo_mode w = Some ''0'' then
        (if u_ignoreUpdatesCounter s \<noteq> 2 then
           (False, s\<lparr>u_ignoreUpdatesCounter := u_ignoreUpdatesCounter s + 1\<rparr>)
         else (True, s\<lparr>u_ignoreUpdatesCounter := 0\<rparr>))
      else (True, s\<lparr>u_ignoreUpdatesCounter := 0\<rparr>))"

text \<open>Lines 303 to 308: the snapshot copied into the entity.\<close>

definition copy_snapshot :: "int option \<Rightarrow> wemo \<Rightarrow> crockpot \<Rightarrow> crockpot" where
  "copy_snapshot state w s =
     s\<lparr> u_state := state,
        u_mode_string := wemo_mode_string w,
        crockpot_mode := wemo_mode w,
        crockpot_remaining_time := wemo_remaining_time w,
        crockpot_cooked_time := wemo_cooked_time w \<rparr>"

text \<open>Lines 310 to 313.\<close>

definition reconnected :: "crockpot \<Rightarrow> crockpot" where
  "reconnected s =
     (if \<not> u_available s then s\<lparr>u_available := True, u_ignoreUnavailableCounter := 0\<rparr> else s)"

text \<open>
  \<open>CrockPot._update\<close> (lines 287 to 317). The result is the exception that leaves the
  method, if any, and the entity as the method leaves it (the object is mutated in
  place, so what was written before an exception stays written). The argument
  \<open>force_update\<close> is only handed to the device and is left out.
\<close>

definition u_update :: "wemo \<Rightarrow> crockpot \<Rightarrow> py_exception option \<times> crockpot" where
  "u_update w s =
     (case wemo_get_state w of
        Returns state \<Rightarrow>
          (case debounce w s of
             (updateState, s1) \<Rightarrow>
               (None, reconnected (if updateState then copy_snapshot state w s1 else s1)))
      | Raises e \<Rightarrow>
          (case except_clause [''AttributeError'', ''ActionException''] e of
             Inl x \<Rightarrow> (Some x, s)
           | Inr True \<Rightarrow>
               (case wemo_reconnect_with_device w of
                  Returns _ \<Rightarrow> (None, s\<lparr>u_available := False\<rparr>)
                | Raises x \<Rightarrow> (Some x, s\<lparr>u_available := False\<rparr>))
           | Inr False \<Rightarrow> (Some e, s)))"

subsection \<open>The commands\<close>

text \<open>
  \<open>CrockPot.update_settings\<close> (lines 268 to 285). \<open>schedule_update_ha_state\<close> asks the
  platform to write the state later and changes no field of the entity.
\<close>

definition update_settings :: "wemo \<Rightarrow> pyval \<Rightarrow> pyval \<Rightarrow> crockpot \<Rightarrow> py_exception option \<times> crockpot" where
  "update_settings w mode time s =
     (case (case wemo_update_settings w of
              Raises e \<Rightarrow> (Some e, s)
            | Returns _ \<Rightarrow>
                (case py_int mode of
                   Inl e \<Rightarrow> (Some e, s)
                 | Inr n \<Rightarrow>
                     (None, if n = 0 then s\<lparr>u_ignoreUpdatesCounter := 2\<rparr>
                            else s\<lparr>u_ignoreUpdatesCounter := 0\<rparr>))) of
        (None, s1) \<Rightarrow> u_update w s1
      | (Some e, s1) \<Rightarrow>
          (case except_clause [''ActionException''] e of
             Inl x \<Rightarrow> (Some x, s1)
           | Inr True \<Rightarrow> u_update w (s1\<lparr>u_available := False\<rparr>)
           | Inr False \<Rightarrow> (Some e, s1)))"

text \<open>\<open>CrockPot.turn_on\<close> (lines 258 to 260).\<close>

definition turn_on :: "wemo \<Rightarrow> crockpot \<Rightarrow> py_exception option \<times> crockpot" where
  "turn_on w s = update_settings w (PyStr ''52'') (PyStr ''360'') s"

text \<open>
  \<open>WemoSwitch.turn_off\<close> (lines 177 to 183) runs its body inside the context manager
  \<open>self._wemo_exception_handler\<close> of the base class, which is defined in entity.py, outside
  \<open>switch.py\<close>. It is a parameter \<open>h\<close> here: given the message, the
  exception the body raised (if any) and the fields of the base class, it gives the
  exception that leaves the \<open>with\<close> block (if any) and the fields of the base class after.
\<close>

type_synonym exception_handler =
  "string \<Rightarrow> py_exception option \<Rightarrow> wemo_entity \<Rightarrow> py_exception option \<times> wemo_entity"

definition WemoSwitch_turn_off :: "exception_handler \<Rightarrow> wemo \<Rightarrow> crockpot \<Rightarrow> py_exception option \<times> crockpot" where
  "WemoSwitch_turn_off h w s =
     (case (case wemo_off w of
              Raises e \<Rightarrow> (Some e, s)
            | Returns r \<Rightarrow> (None, if r then s\<lparr>u_state := Some WEMO_OFF\<rparr> else s)) of
        (raised, s1) \<Rightarrow>
          (case h ''turn off'' raised \<lparr>u_state = u_state s1, u_available = u_available s1\<rparr> of
             (leaving, b) \<Rightarrow> (leaving, s1\<lparr>u_state := u_state b, u_available := u_available b\<rparr>)))"

text \<open>\<open>CrockPot.turn_off\<close> (lines 262 to 266).\<close>

definition turn_off :: "exception_handler \<Rightarrow> wemo \<Rightarrow> crockpot \<Rightarrow> py_exception option \<times> crockpot" where
  "turn_off h w s =
     (case WemoSwitch_turn_off h w s of
        (Some e, s1) \<Rightarrow> (Some e, s1)
      | (None, s1) \<Rightarrow> (None, s1\<lparr>u_ignoreUpdatesCounter := 2\<rparr>))"

subsection \<open>Runs of the entity\<close>

text \<open>
  What the platform does with the entity, one operation at a time (section 5 of the
  specification: operations on one device never overlap). An exception that leaves an
  operation goes to the platform; the entity stays as the operation left it.
\<close>

datatype operation =
  Poll | ReadAvailable | ReadIsOn | TurnOn | TurnOff | UpdateSettings pyval pyval

fun exec :: "exception_handler \<Rightarrow> crockpot \<Rightarrow> operation \<times> wemo \<Rightarrow> crockpot" where
  "exec h s (Poll, w) = snd (u_update w s)"
| "exec h s (ReadAvailable, w) = snd (available s)"
| "exec h s (ReadIsOn, w) = s"
| "exec h s (TurnOn, w) = snd (turn_on w s)"
| "exec h s (TurnOff, w) = snd (turn_off h w s)"
| "exec h s (UpdateSettings mode time, w) = snd (update_settings w mode time s)"

definition run :: "exception_handler \<Rightarrow> wemo_entity \<Rightarrow> (operation \<times> wemo) list \<Rightarrow> crockpot" where
  "run h b ops = foldl (exec h) (CrockPot_init b) ops"

text \<open>The entity after \<open>k\<close> reads of the property \<open>available\<close> in a row.\<close>

fun read_available :: "nat \<Rightarrow> crockpot \<Rightarrow> crockpot" where
  "read_available 0 s = s"
| "read_available (Suc k) s = read_available k (snd (available s))"

text \<open>
  The platform polls the device and then reads \<open>available\<close> to write the state: one
  poll and one read for each answer of the device in \<open>ws\<close>.
\<close>

definition polled_and_read :: "wemo list \<Rightarrow> (operation \<times> wemo) list" where
  "polled_and_read ws = concat (map (\<lambda>w. [(Poll, w), (ReadAvailable, w)]) ws)"

text \<open>The values that the reads of \<open>available\<close> return along a run, in order.\<close>

fun available_reads :: "exception_handler \<Rightarrow> crockpot \<Rightarrow> (operation \<times> wemo) list \<Rightarrow> bool list" where
  "available_reads h s [] = []"
| "available_reads h s ((ReadAvailable, w) # evs) =
     fst (available s) # available_reads h (exec h s (ReadAvailable, w)) evs"
| "available_reads h s (ev # evs) = available_reads h (exec h s ev) evs"

subsection \<open>Sample devices and entities\<close>

text \<open>
  Concrete inputs for the closed theorems below: a device that answers and reports the
  mode \<open>m\<close>, a device whose every method raises \<open>e\<close>, an entity that cooks on "High"
  (mode \<open>52\<close>), an entity fresh from its constructor, and a context manager that lets no
  exception pass and records in \<open>u_available\<close> whether the body raised.
\<close>

definition reporting :: "string \<Rightarrow> wemo" where
  "reporting m =
     \<lparr> wemo_get_state = Returns (Some 1),
       wemo_mode = Some m,
       wemo_mode_string = Some (''mode '' @ m),
       wemo_remaining_time = Some 120,
       wemo_cooked_time = Some 30,
       wemo_reconnect_with_device = Returns (),
       wemo_update_settings = Returns (),
       wemo_off = Returns True \<rparr>"

definition failing :: "py_exception \<Rightarrow> wemo" where
  "failing e =
     \<lparr> wemo_get_state = Raises e,
       wemo_mode = None,
       wemo_mode_string = None,
       wemo_remaining_time = None,
       wemo_cooked_time = None,
       wemo_reconnect_with_device = Raises e,
       wemo_update_settings = Raises e,
       wemo_off = Raises e \<rparr>"

definition cooking_high :: crockpot where
  "cooking_high =
     \<lparr> u_state = Some 1, u_available = True,
       u_mode_string = Some ''High'',
       crockpot_mode = Some ''52'',
       crockpot_remaining_time = Some 360,
       crockpot_cooked_time = Some 0,
       u_ignoreUnavailableCounter = 0,
       u_ignoreUpdatesCounter = 0 \<rparr>"

definition fresh :: crockpot where
  "fresh = CrockPot_init \<lparr>u_state = None, u_available = True\<rparr>"

definition swallowing :: exception_handler where
  "swallowing msg raised b = (None, b\<lparr>u_available := (raised = None)\<rparr>)"

lemmas fixtures =
  reporting_def failing_def cooking_high_def fresh_def swallowing_def CrockPot_init_def

lemmas update_defs = u_update_def debounce_def copy_snapshot_def reconnected_def

section \<open>The claims\<close>

subsection \<open>Evaluation of the builtins\<close>

lemma int_of_str_52: "int_of_str ''52'' = Inr 52"
  by (simp add: int_of_str_def py_strip_def py_isspace_def is_digit_def digit_val_def)

lemma int_of_str_0: "int_of_str ''0'' = Inr 0"
  by (simp add: int_of_str_def py_strip_def py_isspace_def is_digit_def digit_val_def)

lemma int_of_str_not_a_number: "int_of_str ''High'' = Inl ValueError"
  by (simp add: int_of_str_def py_strip_def py_isspace_def is_digit_def digit_val_def)

lemma int_of_str_padded: "int_of_str '' 52 '' = Inr 52"
  by (simp add: int_of_str_def py_strip_def py_isspace_def is_digit_def digit_val_def)

text \<open>The code 28 (a separator control character) is no whitespace to \<open>int\<close>.\<close>

lemma int_of_str_separator: "int_of_str [CHR 0x1C, CHR ''5'', CHR ''2''] = Inl ValueError"
  by (simp add: int_of_str_def py_strip_def py_isspace_def is_digit_def digit_val_def)

text \<open>\<open>int\<close> reads back what \<open>str\<close> writes: \<open>int(str(n))\<close> is \<open>n\<close> for every integer.\<close>

lemma of_char_digit_char: "d < 10 \<Longrightarrow> (of_char (digit_char d) :: nat) = 48 + d"
  by (simp add: digit_char_def)

lemma digit_char_props:
  assumes "d < 10"
  shows "is_digit (digit_char d)" and "digit_val (digit_char d) = d"
    and "\<not> py_isspace (digit_char d)"
    and "digit_char d \<noteq> CHR ''-''" and "digit_char d \<noteq> CHR ''+''"
proof -
  have v: "(of_char (digit_char d) :: nat) = 48 + d"
    using assms by (rule of_char_digit_char)
  show "is_digit (digit_char d)" using assms by (simp add: is_digit_def v)
  show "digit_val (digit_char d) = d" by (simp add: digit_val_def v)
  show "\<not> py_isspace (digit_char d)" by (simp add: py_isspace_def v)
  show "digit_char d \<noteq> CHR ''-''"
  proof
    assume "digit_char d = CHR ''-''"
    then have "(of_char (digit_char d) :: nat) = of_char CHR ''-''" by simp
    then show False by (simp add: v)
  qed
  show "digit_char d \<noteq> CHR ''+''"
  proof
    assume "digit_char d = CHR ''+''"
    then have "(of_char (digit_char d) :: nat) = of_char CHR ''+''" by simp
    then show False by (simp add: v)
  qed
qed

text \<open>The characters of str_of_nat are digits, and there is at least one.\<close>

lemma str_of_nat_digits: "list_all is_digit (str_of_nat n) \<and> str_of_nat n \<noteq> []"
proof (induction n rule: str_of_nat.induct)
  case (1 n)
  show ?case
  proof (cases "n < 10")
    case True
    then show ?thesis by (simp add: str_of_nat.simps [of n] digit_char_props)
  next
    case False
    then show ?thesis
      using 1 by (simp add: str_of_nat.simps [of n] digit_char_props)
  qed
qed

lemma digits_value_digits:
  "list_all is_digit ds \<Longrightarrow> ds \<noteq> [] \<or> prev \<Longrightarrow>
   digits_value acc prev ds = Some (foldl (\<lambda>a c. a * 10 + digit_val c) acc ds)"
proof (induction ds arbitrary: acc prev)
  case Nil
  then show ?case by simp
next
  case (Cons c cs)
  then show ?case by simp
qed

lemma foldl_str_of_nat: "foldl (\<lambda>a c. a * 10 + digit_val c) 0 (str_of_nat n) = n"
proof (induction n rule: str_of_nat.induct)
  case (1 n)
  show ?case
  proof (cases "n < 10")
    case True
    then show ?thesis by (simp add: str_of_nat.simps [of n] digit_char_props)
  next
    case False
    then show ?thesis
      using 1 by (simp add: str_of_nat.simps [of n] digit_char_props)
  qed
qed

lemma digits_value_str_of_nat: "digits_value 0 False (str_of_nat n) = Some n"
  using digits_value_digits [of "str_of_nat n" False 0] str_of_nat_digits [of n]
  by (simp add: foldl_str_of_nat)

lemma py_strip_no_space: "list_all (\<lambda>c. \<not> py_isspace c) s \<Longrightarrow> py_strip s = s"
proof -
  assume a: "list_all (\<lambda>c. \<not> py_isspace c) s"
  then have "dropWhile py_isspace s = s"
    by (cases s) simp_all
  moreover have "dropWhile py_isspace (rev s) = rev s"
    using a by (cases "rev s") (auto simp add: list_all_iff)
  ultimately show ?thesis by (simp add: py_strip_def)
qed

lemma digit_not_space: "is_digit c \<Longrightarrow> \<not> py_isspace c"
  by (auto simp add: is_digit_def py_isspace_def Let_def)

lemma str_of_nat_no_space: "list_all (\<lambda>c. \<not> py_isspace c) (str_of_nat n)"
  using str_of_nat_digits [of n] by (auto simp add: list_all_iff digit_not_space)

lemma str_of_nat_hd: "\<exists>c cs. str_of_nat n = c # cs \<and> is_digit c"
  using str_of_nat_digits [of n] by (cases "str_of_nat n") simp_all

lemma digit_not_sign: "is_digit c \<Longrightarrow> c \<noteq> CHR ''-'' \<and> c \<noteq> CHR ''+''"
  by (auto simp add: is_digit_def)

lemma int_of_str_str_of_nat: "int_of_str (str_of_nat n) = Inr (int n)"
proof -
  obtain c cs where s: "str_of_nat n = c # cs" and d: "is_digit c"
    using str_of_nat_hd by blast
  have "py_strip (str_of_nat n) = c # cs"
    using py_strip_no_space [OF str_of_nat_no_space [of n]] s by simp
  moreover have "digits_value 0 False (c # cs) = Some n"
    using digits_value_str_of_nat [of n] s by simp
  ultimately show ?thesis
    using digit_not_sign [OF d] by (simp add: int_of_str_def del: digits_value.simps)
qed

lemma int_of_str_py_str: "int_of_str (py_str n) = Inr n"
proof (cases "n < 0")
  case False
  then show ?thesis by (simp add: py_str_def int_of_str_str_of_nat)
next
  case True
  have ns: "list_all (\<lambda>c. \<not> py_isspace c) (CHR ''-'' # str_of_nat (nat (- n)))"
    using str_of_nat_no_space [of "nat (- n)"] by (simp add: py_isspace_def)
  have "py_strip (CHR ''-'' # str_of_nat (nat (- n))) = CHR ''-'' # str_of_nat (nat (- n))"
    using ns by (rule py_strip_no_space)
  then show ?thesis
    using True by (simp add: py_str_def int_of_str_def digits_value_str_of_nat)
qed

lemma py_str_samples: "py_str 52 = ''52''" "py_str 0 = ''0''" "py_str (- 7) = ''-7''"
  by code_simp+

text \<open>
  Both \<open>except\<close> clauses of the file name \<open>ActionException\<close>, which the module does not
  bind: whatever exception reaches them, evaluating the clause raises \<open>NameError\<close>.
\<close>

lemma except_update_clause:
  "except_clause [''AttributeError'', ''ActionException''] e = Inl NameError"
  by (simp add: exception_names_def)

lemma except_settings_clause: "except_clause [''ActionException''] e = Inl NameError"
  by (simp add: exception_names_def)

subsection \<open>The two branches of the debounce\<close>

lemma u_update_rejects:
  assumes "wemo_get_state w = Returns state" "wemo_mode w = Some ''0''"
    "crockpot_mode s \<noteq> Some ''0''" "u_ignoreUpdatesCounter s \<noteq> 2"
  shows "u_update w s = (None, reconnected (s\<lparr>u_ignoreUpdatesCounter := u_ignoreUpdatesCounter s + 1\<rparr>))"
  using assms by (simp add: u_update_def debounce_def)

lemma u_update_accepts_at_two:
  assumes "wemo_get_state w = Returns state" "u_ignoreUpdatesCounter s = 2"
  shows "u_update w s = (None, reconnected (copy_snapshot state w (s\<lparr>u_ignoreUpdatesCounter := 0\<rparr>)))"
  using assms by (simp add: u_update_def debounce_def)

lemma reconnected_fields [simp]:
  "crockpot_mode (reconnected s) = crockpot_mode s"
  "u_mode_string (reconnected s) = u_mode_string s"
  "crockpot_remaining_time (reconnected s) = crockpot_remaining_time s"
  "crockpot_cooked_time (reconnected s) = crockpot_cooked_time s"
  "u_ignoreUpdatesCounter (reconnected s) = u_ignoreUpdatesCounter s"
  "u_state (reconnected s) = u_state s"
  "u_available (reconnected s)"
  by (simp_all add: reconnected_def)

subsection \<open>Turning off, and reading \<open>available\<close> while unavailable\<close>

lemma turn_off_counter:
  "turn_off h w s = (None, s1) \<Longrightarrow> u_ignoreUpdatesCounter s1 = 2"
  by (auto simp add: turn_off_def split: prod.splits option.splits)

lemma read_available_unavailable:
  "\<not> u_available s \<Longrightarrow> 0 \<le> u_ignoreUnavailableCounter s \<Longrightarrow> u_ignoreUnavailableCounter s \<le> 3 \<Longrightarrow>
   read_available k s = s\<lparr>u_ignoreUnavailableCounter := min (u_ignoreUnavailableCounter s + int k) 3\<rparr>"
proof (induction k arbitrary: s)
  case 0
  then show ?case by simp
next
  case (Suc k)
  show ?case
  proof (cases "u_ignoreUnavailableCounter s < 3")
    case True
    let ?t = "s\<lparr>u_ignoreUnavailableCounter := u_ignoreUnavailableCounter s + 1\<rparr>"
    have a: "snd (available s) = ?t"
      using Suc.prems True by (simp add: available_def)
    have "read_available k ?t = ?t\<lparr>u_ignoreUnavailableCounter := min (u_ignoreUnavailableCounter ?t + int k) 3\<rparr>"
      using Suc.prems True by (intro Suc.IH) simp_all
    then show ?thesis
      using a by (simp add: add.commute add.left_commute)
  next
    case False
    then have c: "u_ignoreUnavailableCounter s = 3" using Suc.prems by simp
    have a: "snd (available s) = s"
      using Suc.prems c by (simp add: available_def)
    have "read_available k s = s\<lparr>u_ignoreUnavailableCounter := min (u_ignoreUnavailableCounter s + int k) 3\<rparr>"
      using Suc.prems by (intro Suc.IH) simp_all
    then show ?thesis
      using a c by simp
  qed
qed

subsection \<open>The debounce of \<open>_update\<close>\<close>

text \<open>
  C1, as stated, at an explicit input: the entity has just been constructed (its mode is
  unset, its counter is 0) and the device reports the mode \<open>0\<close>. The claim says the
  snapshot is accepted; the code rejects it: the mode stays unset and the counter goes
  to 1.
\<close>

theorem unset_mode_off_report_rejected:
  "crockpot_mode fresh = None \<and>
   fst (u_update (reporting ''0'') fresh) = None \<and>
   crockpot_mode (snd (u_update (reporting ''0'') fresh)) \<noteq> wemo_mode (reporting ''0'') \<and>
   u_ignoreUpdatesCounter (snd (u_update (reporting ''0'') fresh)) = 1"
  by (simp add: fixtures update_defs)

text \<open>
  C1, amended: for every call of \<open>_update\<close> whose read of the device succeeds, if the stored
  mode is already Off (the string \<open>0\<close>) or the reported mode is not Off, the snapshot is
  accepted: the reported mode, mode label, remaining time and cooked time are copied into
  the entity and the counter of ignored updates is set to 0.
\<close>

theorem u_update_accepts:
  assumes "wemo_get_state w = Returns state"
    and "crockpot_mode s = Some ''0'' \<or> wemo_mode w \<noteq> Some ''0''"
  shows "fst (u_update w s) = None \<and>
         crockpot_mode (snd (u_update w s)) = wemo_mode w \<and>
         u_mode_string (snd (u_update w s)) = wemo_mode_string w \<and>
         crockpot_remaining_time (snd (u_update w s)) = wemo_remaining_time w \<and>
         crockpot_cooked_time (snd (u_update w s)) = wemo_cooked_time w \<and>
         u_ignoreUpdatesCounter (snd (u_update w s)) = 0"
  using assms by (auto simp add: update_defs)

text \<open>
  C1, amended, at two inputs: the entity cooks on mode \<open>52\<close> and the device reports \<open>51\<close>;
  the entity is Off with its counter at 1 and the device reports Off.
\<close>

theorem u_update_accepts_witness:
  "crockpot_mode (snd (u_update (reporting ''51'') cooking_high)) = Some ''51'' \<and>
   u_mode_string (snd (u_update (reporting ''51'') cooking_high)) = Some ''mode 51'' \<and>
   crockpot_remaining_time (snd (u_update (reporting ''51'') cooking_high)) = Some 120 \<and>
   crockpot_cooked_time (snd (u_update (reporting ''51'') cooking_high)) = Some 30 \<and>
   u_ignoreUpdatesCounter (snd (u_update (reporting ''51'') cooking_high)) = 0 \<and>
   crockpot_mode (snd (u_update (reporting ''0'')
     (cooking_high\<lparr>crockpot_mode := Some ''0'', u_ignoreUpdatesCounter := 1\<rparr>))) = Some ''0'' \<and>
   crockpot_remaining_time (snd (u_update (reporting ''0'')
     (cooking_high\<lparr>crockpot_mode := Some ''0'', u_ignoreUpdatesCounter := 1\<rparr>))) = Some 120 \<and>
   u_ignoreUpdatesCounter (snd (u_update (reporting ''0'')
     (cooking_high\<lparr>crockpot_mode := Some ''0'', u_ignoreUpdatesCounter := 1\<rparr>))) = 0"
  using u_update_accepts [of "reporting ''51''" "Some 1" cooking_high]
    u_update_accepts [of "reporting ''0''" "Some 1"
      "cooking_high\<lparr>crockpot_mode := Some ''0'', u_ignoreUpdatesCounter := 1\<rparr>"]
  by (simp add: reporting_def)

text \<open>
  C2, as stated, at an explicit input (scenario A of the specification): the entity cooks
  on mode \<open>52\<close> with its counter at 0 and the device reports Off twice. The claim says the
  second report is accepted; the code rejects it too: the mode is still \<open>52\<close> and the
  counter is 2.
\<close>

theorem second_off_report_rejected:
  "crockpot_mode cooking_high = Some ''52'' \<and> u_ignoreUpdatesCounter cooking_high = 0 \<and>
   crockpot_mode (snd (u_update (reporting ''0'') (snd (u_update (reporting ''0'') cooking_high)))) = Some ''52'' \<and>
   u_ignoreUpdatesCounter (snd (u_update (reporting ''0'') (snd (u_update (reporting ''0'') cooking_high)))) = 2"
  by (simp add: fixtures update_defs)

text \<open>
  C2, amended: starting from a mode that is not Off with the counter at 0, the first and
  the second consecutive Off report are rejected (mode, label and times unchanged, the
  counter becomes 1, then 2), and the third consecutive Off report is accepted: the mode
  becomes Off, label and times are those of the report, and the counter is back to 0.
\<close>

theorem off_accepted_at_third_report:
  assumes "crockpot_mode s \<noteq> Some ''0''" and "u_ignoreUpdatesCounter s = 0"
    and "wemo_get_state w1 = Returns st1" and "wemo_mode w1 = Some ''0''"
    and "wemo_get_state w2 = Returns st2" and "wemo_mode w2 = Some ''0''"
    and "wemo_get_state w3 = Returns st3" and "wemo_mode w3 = Some ''0''"
    and "s1 = snd (u_update w1 s)" and "s2 = snd (u_update w2 s1)" and "s3 = snd (u_update w3 s2)"
  shows "crockpot_mode s1 = crockpot_mode s \<and> u_mode_string s1 = u_mode_string s \<and>
         crockpot_remaining_time s1 = crockpot_remaining_time s \<and>
         crockpot_cooked_time s1 = crockpot_cooked_time s \<and>
         u_ignoreUpdatesCounter s1 = 1 \<and>
         crockpot_mode s2 = crockpot_mode s \<and> u_mode_string s2 = u_mode_string s \<and>
         crockpot_remaining_time s2 = crockpot_remaining_time s \<and>
         crockpot_cooked_time s2 = crockpot_cooked_time s \<and>
         u_ignoreUpdatesCounter s2 = 2 \<and>
         crockpot_mode s3 = Some ''0'' \<and> u_mode_string s3 = wemo_mode_string w3 \<and>
         crockpot_remaining_time s3 = wemo_remaining_time w3 \<and>
         crockpot_cooked_time s3 = wemo_cooked_time w3 \<and>
         u_ignoreUpdatesCounter s3 = 0"
proof -
  define t1 where "t1 = reconnected (s\<lparr>u_ignoreUpdatesCounter := 1\<rparr>)"
  define t2 where "t2 = reconnected (t1\<lparr>u_ignoreUpdatesCounter := 2\<rparr>)"
  define t3 where "t3 = reconnected (copy_snapshot st3 w3 (t2\<lparr>u_ignoreUpdatesCounter := 0\<rparr>))"
  have u1: "u_update w1 s = (None, t1)"
    using assms(1-4) u_update_rejects [of w1 st1 s] by (simp add: t1_def)
  have f1: "crockpot_mode t1 = crockpot_mode s" "u_mode_string t1 = u_mode_string s"
    "crockpot_remaining_time t1 = crockpot_remaining_time s"
    "crockpot_cooked_time t1 = crockpot_cooked_time s" "u_ignoreUpdatesCounter t1 = 1"
    by (simp_all add: t1_def)
  have u2: "u_update w2 t1 = (None, t2)"
    using assms(1,5,6) f1 u_update_rejects [of w2 st2 t1] by (simp add: t2_def)
  have f2: "crockpot_mode t2 = crockpot_mode s" "u_mode_string t2 = u_mode_string s"
    "crockpot_remaining_time t2 = crockpot_remaining_time s"
    "crockpot_cooked_time t2 = crockpot_cooked_time s" "u_ignoreUpdatesCounter t2 = 2"
    using f1 by (simp_all add: t2_def)
  have u3: "u_update w3 t2 = (None, t3)"
    using assms(7) f2 u_update_accepts_at_two [of w3 st3 t2] by (simp add: t3_def)
  have f3: "crockpot_mode t3 = Some ''0''" "u_mode_string t3 = wemo_mode_string w3"
    "crockpot_remaining_time t3 = wemo_remaining_time w3"
    "crockpot_cooked_time t3 = wemo_cooked_time w3" "u_ignoreUpdatesCounter t3 = 0"
    using assms(8) by (simp_all add: t3_def copy_snapshot_def)
  have "s1 = t1" using assms(9) u1 by simp
  moreover have "s2 = t2" using assms(10) u2 \<open>s1 = t1\<close> by simp
  moreover have "s3 = t3" using assms(11) u3 \<open>s2 = t2\<close> by simp
  ultimately show ?thesis using f1 f2 f3 by simp
qed

text \<open>C2, amended, at an input: the entity on mode \<open>52\<close> and three Off reports.\<close>

theorem off_accepted_at_third_report_witness:
  "crockpot_mode (snd (u_update (reporting ''0'') cooking_high)) = Some ''52'' \<and>
   u_ignoreUpdatesCounter (snd (u_update (reporting ''0'') cooking_high)) = 1 \<and>
   u_ignoreUpdatesCounter (snd (u_update (reporting ''0'') (snd (u_update (reporting ''0'') cooking_high)))) = 2 \<and>
   crockpot_mode (snd (u_update (reporting ''0'') (snd (u_update (reporting ''0'')
     (snd (u_update (reporting ''0'') cooking_high)))))) = Some ''0'' \<and>
   u_ignoreUpdatesCounter (snd (u_update (reporting ''0'') (snd (u_update (reporting ''0'')
     (snd (u_update (reporting ''0'') cooking_high)))))) = 0"
  using off_accepted_at_third_report [of cooking_high "reporting ''0''" "Some 1" "reporting ''0''" "Some 1"
      "reporting ''0''" "Some 1", OF _ _ _ _ _ _ _ _ refl refl refl]
  by (simp add: reporting_def cooking_high_def)

text \<open>
  C8: when \<open>_update\<close> accepts a snapshot (its flag \<open>updateState\<close> is true), a second call
  on the same snapshot changes nothing: mode, label and times keep their values, the
  counter of ignored updates is not incremented, and every other field stays too.
\<close>

theorem u_update_idempotent_after_accept:
  assumes "wemo_get_state w = Returns state" and "fst (debounce w s)"
  shows "u_update w (snd (u_update w s)) = (None, snd (u_update w s))"
  using assms by (auto simp add: update_defs split: if_splits)

text \<open>
  C8 at two inputs, one for each accepting path: a report of a mode that is not Off, and
  an Off report that meets the counter at 2.
\<close>

theorem u_update_idempotent_after_accept_witness:
  "fst (debounce (reporting ''51'') cooking_high) \<and>
   u_update (reporting ''51'') (snd (u_update (reporting ''51'') cooking_high))
     = (None, snd (u_update (reporting ''51'') cooking_high)) \<and>
   fst (debounce (reporting ''0'') (cooking_high\<lparr>u_ignoreUpdatesCounter := 2\<rparr>)) \<and>
   u_update (reporting ''0'') (snd (u_update (reporting ''0'') (cooking_high\<lparr>u_ignoreUpdatesCounter := 2\<rparr>)))
     = (None, snd (u_update (reporting ''0'') (cooking_high\<lparr>u_ignoreUpdatesCounter := 2\<rparr>)))"
  using u_update_idempotent_after_accept [of "reporting ''51''" "Some 1" cooking_high]
        u_update_idempotent_after_accept [of "reporting ''0''" "Some 1" "cooking_high\<lparr>u_ignoreUpdatesCounter := 2\<rparr>"]
  by (simp add: reporting_def cooking_high_def debounce_def)

subsection \<open>The commands and the counter of ignored updates\<close>

text \<open>
  C3: a \<open>turn_off\<close> that returns leaves the counter of ignored updates at 2, whatever it
  was before, and the next \<open>_update\<close> whose device reports Off is accepted: the mode
  becomes Off, label and times are those of the report, and the counter is back to 0.
\<close>

theorem turn_off_then_off_report_accepted:
  assumes "turn_off h w s = (None, s1)"
    and "wemo_get_state w' = Returns state" and "wemo_mode w' = Some ''0''"
  shows "u_ignoreUpdatesCounter s1 = 2 \<and>
         fst (u_update w' s1) = None \<and>
         crockpot_mode (snd (u_update w' s1)) = Some ''0'' \<and>
         u_mode_string (snd (u_update w' s1)) = wemo_mode_string w' \<and>
         crockpot_remaining_time (snd (u_update w' s1)) = wemo_remaining_time w' \<and>
         crockpot_cooked_time (snd (u_update w' s1)) = wemo_cooked_time w' \<and>
         u_ignoreUpdatesCounter (snd (u_update w' s1)) = 0"
proof -
  have c: "u_ignoreUpdatesCounter s1 = 2"
    using assms(1) by (rule turn_off_counter)
  have "u_update w' s1 = (None, reconnected (copy_snapshot state w' (s1\<lparr>u_ignoreUpdatesCounter := 0\<rparr>)))"
    using assms(2) c by (rule u_update_accepts_at_two)
  then show ?thesis
    using c assms(3) by (simp add: copy_snapshot_def)
qed

text \<open>
  C3 at an input: the entity cooks on mode \<open>52\<close> with its counter at 1, \<open>turn_off\<close>
  returns, and the device then reports Off.
\<close>

theorem turn_off_then_off_report_accepted_witness:
  "turn_off swallowing (reporting ''52'') (cooking_high\<lparr>u_ignoreUpdatesCounter := 1\<rparr>)
     = (None, cooking_high\<lparr>u_state := Some 0, u_ignoreUpdatesCounter := 2\<rparr>) \<and>
   crockpot_mode (snd (u_update (reporting ''0'')
     (cooking_high\<lparr>u_state := Some 0, u_ignoreUpdatesCounter := 2\<rparr>))) = Some ''0'' \<and>
   u_ignoreUpdatesCounter (snd (u_update (reporting ''0'')
     (cooking_high\<lparr>u_state := Some 0, u_ignoreUpdatesCounter := 2\<rparr>))) = 0"
proof -
  have t: "turn_off swallowing (reporting ''52'') (cooking_high\<lparr>u_ignoreUpdatesCounter := 1\<rparr>)
     = (None, cooking_high\<lparr>u_state := Some 0, u_ignoreUpdatesCounter := 2\<rparr>)"
    by (simp add: turn_off_def WemoSwitch_turn_off_def WEMO_OFF_def fixtures)
  show ?thesis
    using t turn_off_then_off_report_accepted [OF t, of "reporting ''0''" "Some 1"]
    by (simp add: reporting_def)
qed

text \<open>
  C5, as stated, at two explicit inputs. A \<open>turn_on\<close> that succeeds on an entity whose
  counter was 2 leaves the counter at 0. A \<open>turn_on\<close> that succeeds while the re-poll
  reports Off has that report rejected (the mode stays \<open>52\<close>, the counter is 1): the
  counter was not 2 when the re-poll ran. The claim says \<open>turn_on\<close> sets the counter to 2.
\<close>

theorem turn_on_leaves_counter_below_two:
  "fst (turn_on (reporting ''52'') (cooking_high\<lparr>u_ignoreUpdatesCounter := 2\<rparr>)) = None \<and>
   u_ignoreUpdatesCounter (snd (turn_on (reporting ''52'') (cooking_high\<lparr>u_ignoreUpdatesCounter := 2\<rparr>))) = 0 \<and>
   fst (turn_on (reporting ''0'') cooking_high) = None \<and>
   crockpot_mode (snd (turn_on (reporting ''0'') cooking_high)) = Some ''52'' \<and>
   u_ignoreUpdatesCounter (snd (turn_on (reporting ''0'') cooking_high)) = 1"
  by (simp add: turn_on_def update_settings_def int_of_str_52 fixtures update_defs)

text \<open>
  C5, amended: the counter of ignored updates is reset to 0 whenever a mode that is not Off
  is accepted. A settings update the device accepts sets it to 2 when \<open>int(mode)\<close> is 0
  and to 0 otherwise, and runs the forced re-poll on the entity so set; \<open>turn_on\<close>, which
  is the settings update with mode \<open>52\<close>, sets it to 0; a \<open>turn_off\<close> that returns sets
  it to 2.
\<close>

theorem ignore_updates_counter_after_commands:
  "(wemo_get_state w = Returns state \<and> wemo_mode w \<noteq> Some ''0'' \<longrightarrow>
      crockpot_mode (snd (u_update w s)) = wemo_mode w \<and>
      u_ignoreUpdatesCounter (snd (u_update w s)) = 0) \<and>
   (wemo_update_settings w = Returns () \<and> py_int mode = Inr n \<longrightarrow>
      update_settings w mode time s =
        u_update w (s\<lparr>u_ignoreUpdatesCounter := (if n = 0 then 2 else 0)\<rparr>)) \<and>
   (wemo_update_settings w = Returns () \<longrightarrow>
      turn_on w s = u_update w (s\<lparr>u_ignoreUpdatesCounter := 0\<rparr>)) \<and>
   (turn_off h w s = (None, s1) \<longrightarrow> u_ignoreUpdatesCounter s1 = 2)"
proof -
  have accepted: "wemo_get_state w = Returns state \<and> wemo_mode w \<noteq> Some ''0'' \<longrightarrow>
      crockpot_mode (snd (u_update w s)) = wemo_mode w \<and>
      u_ignoreUpdatesCounter (snd (u_update w s)) = 0"
    by (simp add: update_defs)
  have settings: "wemo_update_settings w = Returns () \<and> py_int mode = Inr n \<longrightarrow>
      update_settings w mode time s =
        u_update w (s\<lparr>u_ignoreUpdatesCounter := (if n = 0 then 2 else 0)\<rparr>)"
    by (simp add: update_settings_def)
  have on: "wemo_update_settings w = Returns () \<longrightarrow>
      turn_on w s = u_update w (s\<lparr>u_ignoreUpdatesCounter := 0\<rparr>)"
    by (simp add: turn_on_def update_settings_def int_of_str_52)
  have off: "turn_off h w s = (None, s1) \<longrightarrow> u_ignoreUpdatesCounter s1 = 2"
    using turn_off_counter [of h w s s1] by blast
  show ?thesis
    using accepted settings on off by blast
qed

text \<open>
  C5, amended, at inputs: an accepted report of mode \<open>51\<close>, a settings update with mode
  \<open>0\<close>, one with the integer 51, a \<open>turn_on\<close>, and a \<open>turn_off\<close>.
\<close>

theorem ignore_updates_counter_after_commands_witness:
  "u_ignoreUpdatesCounter (snd (u_update (reporting ''51'') (cooking_high\<lparr>u_ignoreUpdatesCounter := 1\<rparr>))) = 0 \<and>
   update_settings (reporting ''0'') (PyStr ''0'') (PyStr ''0'') cooking_high
     = u_update (reporting ''0'') (cooking_high\<lparr>u_ignoreUpdatesCounter := 2\<rparr>) \<and>
   update_settings (reporting ''51'') (PyInt 51) (PyInt 30) cooking_high
     = u_update (reporting ''51'') (cooking_high\<lparr>u_ignoreUpdatesCounter := 0\<rparr>) \<and>
   turn_on (reporting ''52'') cooking_high
     = u_update (reporting ''52'') (cooking_high\<lparr>u_ignoreUpdatesCounter := 0\<rparr>) \<and>
   u_ignoreUpdatesCounter (snd (turn_off swallowing (failing ActionException) cooking_high)) = 2"
proof -
  have t: "turn_off swallowing (failing ActionException) cooking_high
     = (None, cooking_high\<lparr>u_available := False, u_ignoreUpdatesCounter := 2\<rparr>)"
    by (simp add: turn_off_def WemoSwitch_turn_off_def fixtures)
  show ?thesis
    using t
      ignore_updates_counter_after_commands [of "reporting ''51''" "Some 1"
        "cooking_high\<lparr>u_ignoreUpdatesCounter := 1\<rparr>" "PyStr ''0''" 0 "PyStr ''0''" swallowing
        "cooking_high\<lparr>u_available := False, u_ignoreUpdatesCounter := 2\<rparr>"]
      ignore_updates_counter_after_commands [of "reporting ''0''" "Some 1"
        cooking_high "PyStr ''0''" 0 "PyStr ''0''" swallowing cooking_high]
      ignore_updates_counter_after_commands [of "reporting ''51''" "Some 1"
        cooking_high "PyInt 51" 51 "PyInt 30" swallowing cooking_high]
      ignore_updates_counter_after_commands [of "reporting ''52''" "Some 1"
        cooking_high "PyInt 51" 51 "PyInt 30" swallowing cooking_high]
      ignore_updates_counter_after_commands [of "failing ActionException" "Some 1"
        cooking_high "PyInt 51" 51 "PyInt 30" swallowing
        "cooking_high\<lparr>u_available := False, u_ignoreUpdatesCounter := 2\<rparr>"]
    by (simp add: reporting_def int_of_str_0)
qed

subsection \<open>Availability\<close>

text \<open>
  The property by itself: while the stored availability is false, and the counter of
  ignored reports was 0 at the first read, the first three reads (\<open>k < 3\<close> reads before)
  return true and every later one returns false; a poll that succeeds makes the
  availability true, stored and read, and sets the counter to 0.
\<close>

lemma available_grace_period:
  assumes "\<not> u_available s" and "u_ignoreUnavailableCounter s = 0"
  shows "(k < 3 \<longrightarrow> fst (available (read_available k s))) \<and>
         (3 \<le> k \<longrightarrow> \<not> fst (available (read_available k s)) \<and>
                     \<not> u_available (snd (available (read_available k s)))) \<and>
         (wemo_get_state w = Returns state \<longrightarrow>
            fst (u_update w (read_available k s)) = None \<and>
            u_available (snd (u_update w (read_available k s))) \<and>
            fst (available (snd (u_update w (read_available k s)))) \<and>
            u_ignoreUnavailableCounter (snd (u_update w (read_available k s))) = 0)"
proof -
  have r: "read_available k s = s\<lparr>u_ignoreUnavailableCounter := min (int k) 3\<rparr>"
    using assms read_available_unavailable [of s k] by simp
  have masked: "k < 3 \<longrightarrow> fst (available (read_available k s))"
    using assms by (simp add: r available_def)
  have surfaced: "3 \<le> k \<longrightarrow> \<not> fst (available (read_available k s)) \<and>
                     \<not> u_available (snd (available (read_available k s)))"
    using assms by (simp add: r available_def)
  have recovered: "wemo_get_state w = Returns state \<longrightarrow>
            fst (u_update w (read_available k s)) = None \<and>
            u_available (snd (u_update w (read_available k s))) \<and>
            fst (available (snd (u_update w (read_available k s)))) \<and>
            u_ignoreUnavailableCounter (snd (u_update w (read_available k s))) = 0"
    using assms by (auto simp add: r update_defs available_def)
  show ?thesis
    using masked surfaced recovered by blast
qed

text \<open>A poll that fails, and the read after it, leave an available entity as it is.\<close>

lemma failed_poll_and_read:
  assumes "u_available s" and "wemo_get_state w = Raises e"
  shows "exec h s (Poll, w) = s" and "exec h s (ReadAvailable, w) = s" and "fst (available s)"
  using assms by (simp_all add: u_update_def exception_names_def available_def)

text \<open>
  C4 says that the first three unavailable reports in a row are masked and that the fourth
  reads false, the stored availability being false. An unavailable report reaches the
  entity as a poll whose \<open>get_state\<close> raises. Line 316 would record it, but the handler
  never runs (its clause names the unbound \<open>ActionException\<close>): however many polls fail in a
  row on an available entity, every read of \<open>available\<close> after them returns true, the
  fourth as well, and the entity, its stored availability included, stays as it was.
\<close>

theorem failed_polls_never_surface:
  assumes "u_available s" and "list_all (\<lambda>w. \<exists>e. wemo_get_state w = Raises e) ws"
  shows "available_reads h s (polled_and_read ws) = replicate (length ws) True \<and>
         foldl (exec h) s (polled_and_read ws) = s"
  using assms(2)
proof (induction ws)
  case Nil
  then show ?case by (simp add: polled_and_read_def)
next
  case (Cons w ws)
  then obtain e where e: "wemo_get_state w = Raises e" by auto
  have p: "polled_and_read (w # ws) = (Poll, w) # (ReadAvailable, w) # polled_and_read ws"
    by (simp add: polled_and_read_def)
  show ?case
    using Cons failed_poll_and_read [OF assms(1) e]
    by (simp add: p del: exec.simps)
qed

text \<open>
  C4 at an input: the entity fresh from its constructor, and four polls in a row whose
  \<open>get_state\<close> raises \<open>ActionException\<close>, each followed by a read. The four reads return
  true, the stored availability is true and the counter of ignored reports is 0.
\<close>

theorem failed_polls_never_surface_witness:
  "available_reads swallowing fresh
     (polled_and_read [failing ActionException, failing ActionException,
                       failing ActionException, failing ActionException])
     = [True, True, True, True] \<and>
   u_available (foldl (exec swallowing) fresh
     (polled_and_read [failing ActionException, failing ActionException,
                       failing ActionException, failing ActionException])) \<and>
   u_ignoreUnavailableCounter (foldl (exec swallowing) fresh
     (polled_and_read [failing ActionException, failing ActionException,
                       failing ActionException, failing ActionException])) = 0"
proof -
  have a: "u_available fresh" and c: "u_ignoreUnavailableCounter fresh = 0"
    by (simp_all add: fresh_def CrockPot_init_def)
  have f: "list_all (\<lambda>w. \<exists>e. wemo_get_state w = Raises e)
     [failing ActionException, failing ActionException, failing ActionException, failing ActionException]"
    by (simp add: failing_def)
  show ?thesis
    using failed_polls_never_surface [OF a f, of swallowing] a c
    by (simp add: numeral_eq_Suc)
qed

text \<open>
  The stored availability can still become false through the context manager of
  \<open>turn_off\<close>. With the sample context manager, which also makes the entity available
  again when the body returns, the counter is not reset on the way back: after an outage
  that used up the three masked reads, the next outage is surfaced at its first read.
\<close>

lemma new_outage_surfaced_at_once:
  "available_reads swallowing fresh
     [(TurnOff, failing ActionException), (ReadAvailable, reporting ''52''),
      (ReadAvailable, reporting ''52''), (ReadAvailable, reporting ''52''),
      (TurnOff, reporting ''52''), (ReadAvailable, reporting ''52''),
      (TurnOff, failing ActionException), (ReadAvailable, reporting ''52'')]
   = [True, True, True, True, False]"
  by (simp add: turn_off_def WemoSwitch_turn_off_def available_def fixtures)

text \<open>
  C6, as stated, at explicit inputs: three reads of \<open>available\<close> on an unavailable
  entity bring the counter of ignored reports to 3, outside the claimed range. The second
  half reaches the same from the constructor: a \<open>turn_off\<close> whose context manager marks
  the entity unavailable, then three reads.
\<close>

theorem unavailable_counter_reaches_three:
  "u_ignoreUnavailableCounter (read_available 3 (cooking_high\<lparr>u_available := False\<rparr>)) = 3 \<and>
   u_ignoreUnavailableCounter
     (run swallowing \<lparr>u_state = None, u_available = True\<rparr>
        [(TurnOff, failing ActionException), (ReadAvailable, failing ActionException),
         (ReadAvailable, failing ActionException), (ReadAvailable, failing ActionException)]) = 3"
  by (simp add: run_def turn_off_def WemoSwitch_turn_off_def available_def fixtures numeral_3_eq_3)

text \<open>Each operation keeps the counter of ignored reports between 0 and 3.\<close>

lemma available_counter:
  "0 \<le> u_ignoreUnavailableCounter s \<and> u_ignoreUnavailableCounter s \<le> 3 \<Longrightarrow>
   0 \<le> u_ignoreUnavailableCounter (snd (available s)) \<and> u_ignoreUnavailableCounter (snd (available s)) \<le> 3"
  by (simp add: available_def)

lemma u_update_counter:
  "0 \<le> u_ignoreUnavailableCounter s \<and> u_ignoreUnavailableCounter s \<le> 3 \<Longrightarrow>
   0 \<le> u_ignoreUnavailableCounter (snd (u_update w s)) \<and> u_ignoreUnavailableCounter (snd (u_update w s)) \<le> 3"
  by (cases "wemo_get_state w") (simp_all add: update_defs exception_names_def)

lemma update_settings_counter:
  assumes "0 \<le> u_ignoreUnavailableCounter s \<and> u_ignoreUnavailableCounter s \<le> 3"
  shows "0 \<le> u_ignoreUnavailableCounter (snd (update_settings w mode time s)) \<and>
         u_ignoreUnavailableCounter (snd (update_settings w mode time s)) \<le> 3"
proof (cases "wemo_update_settings w")
  case (Raises e)
  then show ?thesis
    using assms by (simp add: update_settings_def exception_names_def)
next
  case (Returns u)
  show ?thesis
  proof (cases "py_int mode")
    case (Inl e)
    then show ?thesis
      using Returns assms by (simp add: update_settings_def exception_names_def)
  next
    case (Inr n)
    then have "update_settings w mode time s =
        u_update w (s\<lparr>u_ignoreUpdatesCounter := (if n = 0 then 2 else 0)\<rparr>)"
      using Returns by (simp add: update_settings_def)
    then show ?thesis
      using assms u_update_counter [of "s\<lparr>u_ignoreUpdatesCounter := (if n = 0 then 2 else 0)\<rparr>" w]
      by simp
  qed
qed

lemma turn_off_unavailable_counter:
  "u_ignoreUnavailableCounter (snd (turn_off h w s)) = u_ignoreUnavailableCounter s"
  by (cases "wemo_off w")
     (auto simp add: turn_off_def WemoSwitch_turn_off_def split: prod.splits option.splits)

lemma exec_counter:
  "0 \<le> u_ignoreUnavailableCounter s \<and> u_ignoreUnavailableCounter s \<le> 3 \<Longrightarrow>
   0 \<le> u_ignoreUnavailableCounter (exec h s ev) \<and> u_ignoreUnavailableCounter (exec h s ev) \<le> 3"
proof (cases ev)
  case (Pair c w)
  assume inv: "0 \<le> u_ignoreUnavailableCounter s \<and> u_ignoreUnavailableCounter s \<le> 3"
  show ?thesis
    using inv Pair available_counter [of s] u_update_counter [of s w]
      update_settings_counter [of s w] turn_off_unavailable_counter [of h w s]
    by (cases c) (simp_all add: turn_on_def)
qed

lemma foldl_exec_counter:
  "0 \<le> u_ignoreUnavailableCounter s \<and> u_ignoreUnavailableCounter s \<le> 3 \<Longrightarrow>
   0 \<le> u_ignoreUnavailableCounter (foldl (exec h) s evs) \<and>
   u_ignoreUnavailableCounter (foldl (exec h) s evs) \<le> 3"
proof (induction evs arbitrary: s)
  case Nil
  then show ?case by simp
next
  case (Cons ev evs)
  then show ?case using exec_counter [of s h ev] by simp
qed

text \<open>
  C6, amended: across every operation of the entity, from its constructor on, the counter
  of ignored reports stays within 0 and 3, bounds included: it is never negative and
  never exceeds 3.
\<close>

theorem unavailable_counter_at_most_three:
  "0 \<le> u_ignoreUnavailableCounter (run h b evs) \<and> u_ignoreUnavailableCounter (run h b evs) \<le> 3"
  unfolding run_def by (rule foldl_exec_counter) (simp add: CrockPot_init_def)

subsection \<open>The switch state\<close>

text \<open>
  C10: \<open>is_on\<close> returns true exactly when the mode is set and \<open>int\<close> of it is greater than
  0; while the mode is unset, and so right after the constructor, it returns false. On
  the decimal string of any integer \<open>k\<close> it returns whether \<open>k\<close> is greater than 0: true
  on \<open>52\<close> (also between spaces), false on \<open>0\<close>; on a mode that is no number \<open>int\<close>
  raises \<open>ValueError\<close> and \<open>is_on\<close> returns nothing.
\<close>

theorem is_on_exactly_positive_mode:
  "(is_on s = Inr True) = (\<exists>m n. crockpot_mode s = Some m \<and> int_of_str m = Inr n \<and> 0 < n) \<and>
   is_on (s\<lparr>crockpot_mode := None\<rparr>) = Inr False \<and>
   is_on (CrockPot_init b) = Inr False \<and>
   is_on (s\<lparr>crockpot_mode := Some (py_str k)\<rparr>) = Inr (0 < k) \<and>
   is_on (s\<lparr>crockpot_mode := Some ''52''\<rparr>) = Inr True \<and>
   is_on (s\<lparr>crockpot_mode := Some ''0''\<rparr>) = Inr False \<and>
   is_on (s\<lparr>crockpot_mode := Some '' 52 ''\<rparr>) = Inr True \<and>
   is_on (s\<lparr>crockpot_mode := Some ''High''\<rparr>) = Inl ValueError \<and>
   is_on (s\<lparr>crockpot_mode := Some [CHR 0x1C, CHR ''5'', CHR ''2'']\<rparr>) = Inl ValueError"
proof -
  have iff: "(is_on s = Inr True) = (\<exists>m n. crockpot_mode s = Some m \<and> int_of_str m = Inr n \<and> 0 < n)"
    by (auto simp add: is_on_def split: option.splits sum.splits)
  have unset: "is_on (s\<lparr>crockpot_mode := None\<rparr>) = Inr False" "is_on (CrockPot_init b) = Inr False"
    by (simp_all add: is_on_def CrockPot_init_def)
  have decimal: "is_on (s\<lparr>crockpot_mode := Some (py_str k)\<rparr>) = Inr (0 < k)"
    by (simp add: is_on_def int_of_str_py_str)
  have samples: "is_on (s\<lparr>crockpot_mode := Some ''52''\<rparr>) = Inr True"
    "is_on (s\<lparr>crockpot_mode := Some ''0''\<rparr>) = Inr False"
    "is_on (s\<lparr>crockpot_mode := Some '' 52 ''\<rparr>) = Inr True"
    "is_on (s\<lparr>crockpot_mode := Some ''High''\<rparr>) = Inl ValueError"
    "is_on (s\<lparr>crockpot_mode := Some [CHR 0x1C, CHR ''5'', CHR ''2'']\<rparr>) = Inl ValueError"
    by (simp_all add: is_on_def int_of_str_52 int_of_str_0 int_of_str_not_a_number int_of_str_padded int_of_str_separator)
  show ?thesis
    using iff unset decimal samples by simp
qed

subsection \<open>Failures of the device\<close>

text \<open>
  C9 says that a poll whose read of the device fails changes nothing but the stored
  availability, which it sets to false. The handler of \<open>_update\<close> (lines 314 to 317) would
  do so, but its clause names \<open>ActionException\<close>, which \<open>switch.py\<close> never imports: whatever
  \<open>get_state\<close> raises, \<open>NameError\<close> leaves \<open>_update\<close> and no field of the entity changes,
  the stored availability included.
\<close>

theorem u_update_failed_read:
  "wemo_get_state w = Raises e \<Longrightarrow> u_update w s = (Some NameError, s)"
  by (simp add: u_update_def exception_names_def)

text \<open>
  C9 at two inputs: an available entity, and a device whose \<open>get_state\<close> raises
  \<open>ActionException\<close>, then \<open>AttributeError\<close>. The entity stays available.
\<close>

theorem u_update_failed_read_witness:
  "u_available cooking_high \<and>
   u_update (failing ActionException) cooking_high = (Some NameError, cooking_high) \<and>
   u_update (failing AttributeError) cooking_high = (Some NameError, cooking_high)"
  using u_update_failed_read [of "failing ActionException" ActionException cooking_high]
        u_update_failed_read [of "failing AttributeError" AttributeError cooking_high]
  by (simp add: failing_def cooking_high_def)

text \<open>
  C7 says that a settings update the device rejects marks the entity unavailable. The
  handler of \<open>update_settings\<close> (lines 280 to 282) would set \<open>_available\<close> to false, but its
  clause names the unbound \<open>ActionException\<close> too: \<open>NameError\<close> leaves \<open>update_settings\<close>,
  no field of the entity changes, and the forced re-poll of line 284 is not reached.
\<close>

theorem update_settings_failed_command:
  "wemo_update_settings w = Raises e \<Longrightarrow> update_settings w mode time s = (Some NameError, s)"
  by (simp add: update_settings_def exception_names_def)

text \<open>
  C7 at an input: an available entity and a device that raises \<open>ActionException\<close>. The
  entity stays available.
\<close>

theorem update_settings_failed_command_witness:
  "u_available cooking_high \<and>
   update_settings (failing ActionException) (PyStr ''51'') (PyStr ''60'') cooking_high
     = (Some NameError, cooking_high)"
  using update_settings_failed_command
    [of "failing ActionException" ActionException "PyStr ''51''" "PyStr ''60''" cooking_high]
  by (simp add: failing_def cooking_high_def)

end
